theory Spec2Isabelle
  imports Main
begin

section \<open>Shared data\<close>

text \<open>
  The exceptions the readers raise or let through.  \<open>ValueError\<close> and \<open>KeyError\<close>
  are raised by the code itself (the latter by a subscript on a dictionary that lacks
  the key, such as \<^verbatim>\<open>os.environ["SLACK_BOT_TOKEN"]\<close>); \<open>SlackApiError\<close> is what the
  Slack client raises for a request the API rejects, and it is the only class the
  \<^verbatim>\<open>except\<close> clauses of \<^verbatim>\<open>slack.py\<close> name; \<open>OSError\<close> stands for what the operating
  system or the transport raises (an unreadable file, a failed connection).
\<close>

datatype error =
    ValueError string
  | KeyError string
  | SlackApiError string
  | OSError string

fun is_SlackApiError :: "error \<Rightarrow> bool" where
  "is_SlackApiError (SlackApiError m) = True"
| "is_SlackApiError (ValueError m) = False"
| "is_SlackApiError (KeyError m) = False"
| "is_SlackApiError (OSError m) = False"

text \<open>
  \<^verbatim>\<open>Document(text, extra_info=None)\<close> of \<^verbatim>\<open>gpt_index.schema\<close>: a text body and an
  optional dictionary.  The dictionary is an association list, in insertion order.
\<close>

record Document =
  doc_text :: string
  extra_info :: "(string \<times> string) list option"

text \<open>Python's \<^verbatim>\<open>sep.join(xs)\<close> on strings.\<close>

fun join :: "string \<Rightarrow> string list \<Rightarrow> string" where
  "join sep [] = []"
| "join sep [x] = x"
| "join sep (x # y # ys) = x @ sep @ join sep (y # ys)"


section \<open>The Slack reader (\<^verbatim>\<open>gpt_index/readers/slack.py\<close>)\<close>

text \<open>
  The Slack client is the external collaborator.  A message is a dictionary with the
  keys \<^verbatim>\<open>text\<close> and \<^verbatim>\<open>ts\<close>; a response carries \<^verbatim>\<open>messages\<close>, \<^verbatim>\<open>has_more\<close> and the
  dictionary \<^verbatim>\<open>response_metadata\<close>, in which the code looks \<^verbatim>\<open>next_cursor\<close> up.
  A request either raises or returns a response.  The remote data set is read-only and
  does not change during a run, so a request's outcome is a function of its arguments:
  a request that is repeated has the same outcome again.  The calls of the logger
  change nothing that a function returns or raises and are left out.  (\<open>text\<close> is a
  keyword of Isabelle, so the key \<^verbatim>\<open>text\<close> of a message is the field \<open>msg_text\<close>, and
  the text of a Document is \<open>doc_text\<close>.)
\<close>

record message =
  msg_text :: string
  ts :: string

record response =
  messages :: "message list"
  has_more :: bool
  response_metadata :: "(string \<times> string) list"

record api_response =
  ok :: bool
  error_field :: string

record web_client =
  api_test :: "error + api_response"
  conversations_history :: "string \<Rightarrow> string option \<Rightarrow> error + response"
  conversations_replies :: "string \<Rightarrow> string \<Rightarrow> string option \<Rightarrow> error + response"

record SlackReader =
  client :: web_client

subsection \<open>\<^verbatim>\<open>SlackReader.__init__\<close>\<close>

text \<open>
  \<^verbatim>\<open>os.environ[key]\<close>: the value, or \<open>KeyError\<close> when the variable is not set.  The
  value of a set variable is a string, never \<^verbatim>\<open>None\<close>, so the test
  \<^verbatim>\<open>if slack_token is None\<close> that follows the lookup in the source cannot succeed and
  has no branch here.
\<close>

definition environ_getitem :: "(string \<rightharpoonup> string) \<Rightarrow> string \<Rightarrow> error + string" where
  "environ_getitem environ key =
     (case environ key of None \<Rightarrow> Inl (KeyError key) | Some v \<Rightarrow> Inr v)"

text \<open>
  The constructor.  \<open>slack_sdk\<close> is the outcome of \<^verbatim>\<open>from slack_sdk import WebClient\<close>:
  \<open>None\<close> for an \<^verbatim>\<open>ImportError\<close>, otherwise the class, a function from the token to
  a client.
\<close>

definition SlackReader_init ::
  "(string \<Rightarrow> web_client) option \<Rightarrow> (string \<rightharpoonup> string) \<Rightarrow> string option \<Rightarrow> error + SlackReader"
where
  "SlackReader_init slack_sdk environ slack_token =
     (case slack_sdk of
        None \<Rightarrow> Inl (ValueError ''`slack_sdk` package not found, please run `pip install slack_sdk`'')
      | Some WebClient \<Rightarrow>
          (case (case slack_token of
                   None \<Rightarrow> environ_getitem environ ''SLACK_BOT_TOKEN''
                 | Some t \<Rightarrow> Inr t) of
             Inl e \<Rightarrow> Inl e
           | Inr token \<Rightarrow>
               (let c = WebClient token in
                case api_test c of
                  Inl e \<Rightarrow> Inl e
                | Inr res \<Rightarrow>
                    if \<not> ok res
                    then Inl (ValueError (''Error initializing Slack API: '' @ error_field res))
                    else Inr \<lparr>client = c\<rparr>)))"

subsection \<open>\<^verbatim>\<open>SlackReader._read_message\<close>\<close>

text \<open>
  The \<^verbatim>\<open>while True\<close> loop of \<^verbatim>\<open>_read_message\<close>, with its two variables.  The request
  stands before the \<^verbatim>\<open>try\<close>, so what it raises leaves the function.  Nothing inside
  the \<^verbatim>\<open>try\<close> raises \<open>SlackApiError\<close>; a missing \<^verbatim>\<open>next_cursor\<close> raises \<open>KeyError\<close>,
  which the \<^verbatim>\<open>except\<close> clause does not name.  A loop that never ends is \<open>None\<close>.
\<close>

partial_function (option) read_message_loop ::
  "SlackReader \<Rightarrow> string \<Rightarrow> string \<Rightarrow> string option \<Rightarrow> string list \<Rightarrow> (error + string) option"
where
  "read_message_loop self channel_id message_ts next_cursor messages_text =
     (case conversations_replies (client self) channel_id message_ts next_cursor of
        Inl e \<Rightarrow> Some (Inl e)
      | Inr result \<Rightarrow>
          (let messages_text' = messages_text @ map msg_text (messages result) in
           if \<not> has_more result
           then Some (Inr (join [CHR 0x0A, CHR 0x0A] messages_text'))
           else (case map_of (response_metadata result) ''next_cursor'' of
                   None \<Rightarrow> Some (Inl (KeyError ''next_cursor''))
                 | Some c \<Rightarrow>
                     read_message_loop self channel_id message_ts (Some c) messages_text')))"

definition read_message :: "SlackReader \<Rightarrow> string \<Rightarrow> string \<Rightarrow> (error + string) option" where
  "read_message self channel_id message_ts =
     read_message_loop self channel_id message_ts None []"

subsection \<open>\<^verbatim>\<open>SlackReader._read_channel\<close>\<close>

text \<open>
  The \<^verbatim>\<open>for message in conversation_history\<close> loop.  It appends to
  \<^verbatim>\<open>result_messages\<close> in place, so when \<^verbatim>\<open>_read_message\<close> raises, the list keeps what
  was appended before: the result is the exception, if any, and the list.
\<close>

fun read_channel_messages ::
  "SlackReader \<Rightarrow> string \<Rightarrow> message list \<Rightarrow> string list \<Rightarrow> (error option \<times> string list) option"
where
  "read_channel_messages self channel_id [] result_messages = Some (None, result_messages)"
| "read_channel_messages self channel_id (message # rest) result_messages =
     (case read_message self channel_id (ts message) of
        None \<Rightarrow> None
      | Some (Inl e) \<Rightarrow> Some (Some e, result_messages)
      | Some (Inr thread) \<Rightarrow>
          read_channel_messages self channel_id rest (result_messages @ [thread]))"

text \<open>
  The \<^verbatim>\<open>while True\<close> loop of \<^verbatim>\<open>_read_channel\<close>.  Each round makes two requests: the
  one before the \<^verbatim>\<open>try\<close>, with the cursor, whose response is overwritten, and the one
  inside the \<^verbatim>\<open>try\<close>, without a cursor, whose response is used.  The \<^verbatim>\<open>except\<close>
  clause logs a \<open>SlackApiError\<close> raised inside the \<^verbatim>\<open>try\<close> and falls through to the
  next round, with the cursor as it was and the list as it is.
\<close>

partial_function (option) read_channel_loop ::
  "SlackReader \<Rightarrow> string \<Rightarrow> string option \<Rightarrow> string list \<Rightarrow> (error + string) option"
where
  "read_channel_loop self channel_id next_cursor result_messages =
     (case conversations_history (client self) channel_id next_cursor of
        Inl e \<Rightarrow> Some (Inl e)
      | Inr overwritten \<Rightarrow>
          (case conversations_history (client self) channel_id None of
             Inl e \<Rightarrow>
               if is_SlackApiError e
               then read_channel_loop self channel_id next_cursor result_messages
               else Some (Inl e)
           | Inr result \<Rightarrow>
               (case read_channel_messages self channel_id (messages result) result_messages of
                  None \<Rightarrow> None
                | Some (Some e, result_messages') \<Rightarrow>
                    if is_SlackApiError e
                    then read_channel_loop self channel_id next_cursor result_messages'
                    else Some (Inl e)
                | Some (None, result_messages') \<Rightarrow>
                    if \<not> has_more result
                    then Some (Inr (join [CHR 0x0A, CHR 0x0A] result_messages'))
                    else (case map_of (response_metadata result) ''next_cursor'' of
                            None \<Rightarrow> Some (Inl (KeyError ''next_cursor''))
                          | Some c \<Rightarrow>
                              read_channel_loop self channel_id (Some c) result_messages'))))"

definition read_channel :: "SlackReader \<Rightarrow> string \<Rightarrow> (error + string) option" where
  "read_channel self channel_id = read_channel_loop self channel_id None []"

subsection \<open>\<^verbatim>\<open>SlackReader.load_data\<close>\<close>

text \<open>The \<^verbatim>\<open>for channel_id in channel_ids\<close> loop, with the list \<^verbatim>\<open>results\<close>.\<close>

fun load_channels ::
  "SlackReader \<Rightarrow> string list \<Rightarrow> Document list \<Rightarrow> (error + Document list) option"
where
  "load_channels self [] results = Some (Inr results)"
| "load_channels self (channel_id # rest) results =
     (case read_channel self channel_id of
        None \<Rightarrow> None
      | Some (Inl e) \<Rightarrow> Some (Inl e)
      | Some (Inr channel_content) \<Rightarrow>
          load_channels self rest
            (results @ [\<lparr>doc_text = channel_content,
                         extra_info = Some [(''channel'', channel_id)]\<rparr>]))"

text \<open>
  \<^verbatim>\<open>load_data(**load_kwargs)\<close>; the argument is \<^verbatim>\<open>load_kwargs.pop("channel_ids", None)\<close>.
\<close>

definition SlackReader_load_data ::
  "SlackReader \<Rightarrow> string list option \<Rightarrow> (error + Document list) option"
where
  "SlackReader_load_data self channel_ids =
     (case channel_ids of
        None \<Rightarrow> Some (Inl (ValueError ''Must specify a \"channel_id\" in `load_kwargs`.''))
      | Some ids \<Rightarrow> load_channels self ids [])"

section \<open>The directory reader (\<^verbatim>\<open>gpt_index/readers/file.py\<close>)\<close>

text \<open>
  The three things the reader asks of the file system: \<^verbatim>\<open>Path.iterdir\<close> (the paths of
  a directory's entries in enumeration order, or what it raises), \<^verbatim>\<open>Path.is_file\<close> and
  \<^verbatim>\<open>open(path, "r").read()\<close>.  A path is its string.
\<close>

record filesystem =
  iterdir :: "string \<Rightarrow> error + string list"
  is_file :: "string \<Rightarrow> bool"
  read_text :: "string \<Rightarrow> error + string"

text \<open>\<^verbatim>\<open>Path.name\<close>, the final component of a path, and \<^verbatim>\<open>str.startswith\<close>.\<close>

definition path_name :: "string \<Rightarrow> string" where
  "path_name p = rev (takeWhile (\<lambda>c. c \<noteq> CHR ''/'') (rev p))"

definition startswith :: "string \<Rightarrow> string \<Rightarrow> bool" where
  "startswith s pre = (take (length pre) s = pre)"

record SimpleDirectoryReader =
  input_dir :: string
  input_files :: "string list"

subsection \<open>\<^verbatim>\<open>SimpleDirectoryReader.__init__\<close>\<close>

text \<open>
  The loop over \<^verbatim>\<open>input_files\<close> that raises on the first entry that is not a file.
  In the constructor below, \<open>dir\<close> is the argument \<^verbatim>\<open>input_dir\<close> and \<open>files\<close> the local
  variable \<^verbatim>\<open>input_files\<close>; the two names are the fields of the reader here.
\<close>

fun check_files :: "filesystem \<Rightarrow> string list \<Rightarrow> error option" where
  "check_files fs [] = None"
| "check_files fs (input_file # rest) =
     (if \<not> is_file fs input_file
      then Some (ValueError (''Expected '' @ input_file @ '' to be a file.''))
      else check_files fs rest)"

definition SimpleDirectoryReader_init ::
  "filesystem \<Rightarrow> string \<Rightarrow> bool \<Rightarrow> error + SimpleDirectoryReader"
where
  "SimpleDirectoryReader_init fs dir exclude_hidden =
     (case iterdir fs dir of
        Inl e \<Rightarrow> Inl e
      | Inr listed \<Rightarrow>
          (let files = (if exclude_hidden
                        then filter (\<lambda>f. \<not> startswith (path_name f) ''.'') listed
                        else listed) in
           case check_files fs files of
             Some e \<Rightarrow> Inl e
           | None \<Rightarrow> Inr \<lparr>input_dir = dir, input_files = files\<rparr>))"

subsection \<open>\<^verbatim>\<open>SimpleDirectoryReader.load_data\<close>\<close>

text \<open>The loop that reads every file into \<^verbatim>\<open>data_list\<close>.\<close>

fun read_files :: "filesystem \<Rightarrow> string list \<Rightarrow> string list \<Rightarrow> error + string list" where
  "read_files fs [] data_list = Inr data_list"
| "read_files fs (input_file # rest) data_list =
     (case read_text fs input_file of
        Inl e \<Rightarrow> Inl e
      | Inr data \<Rightarrow> read_files fs rest (data_list @ [data]))"

text \<open>
  \<^verbatim>\<open>load_data(**load_kwargs)\<close>; the argument is the keyword \<^verbatim>\<open>concatenate\<close>, \<open>None\<close>
  when the caller leaves it out (\<^verbatim>\<open>load_kwargs.get("concatenate", True)\<close>).
\<close>

definition SimpleDirectoryReader_load_data ::
  "filesystem \<Rightarrow> SimpleDirectoryReader \<Rightarrow> bool option \<Rightarrow> error + Document list"
where
  "SimpleDirectoryReader_load_data fs self concatenate_kwarg =
     (let concatenate = (case concatenate_kwarg of None \<Rightarrow> True | Some b \<Rightarrow> b) in
      case read_files fs (input_files self) [] of
        Inl e \<Rightarrow> Inl e
      | Inr data_list \<Rightarrow>
          if concatenate
          then Inr [\<lparr>doc_text = join [CHR 0x0A] data_list, extra_info = None\<rparr>]
          else Inr (map (\<lambda>d. \<lparr>doc_text = d, extra_info = None\<rparr>) data_list))"


section \<open>The mock helpers (\<^verbatim>\<open>tests/mock_utils/mock_utils.py\<close>)\<close>

text \<open>
  \<^verbatim>\<open>simple_extract_keywords\<close> lives in \<^verbatim>\<open>gpt_index.indices.keyword_table.utils\<close> and is
  a parameter here.  It returns a set of strings; the set is the list of its elements
  in the order in which iterating it yields them, which is the order \<^verbatim>\<open>",".join\<close> sees.
  The keyword \<^verbatim>\<open>filter_stopwords\<close> of both helpers defaults to \<^verbatim>\<open>True\<close>.
\<close>

definition mock_extract_keywords_response ::
  "(string \<Rightarrow> int option \<Rightarrow> bool \<Rightarrow> string list) \<Rightarrow> string \<Rightarrow> int option \<Rightarrow> bool \<Rightarrow> string"
where
  "mock_extract_keywords_response simple_extract_keywords text_chunk max_keywords filter_stopwords =
     join '','' (simple_extract_keywords text_chunk max_keywords False)"

definition mock_extract_keywords ::
  "(string \<Rightarrow> int option \<Rightarrow> bool \<Rightarrow> string list) \<Rightarrow> string \<Rightarrow> int option \<Rightarrow> bool \<Rightarrow> string list"
where
  "mock_extract_keywords simple_extract_keywords text_chunk max_keywords filter_stopwords =
     simple_extract_keywords text_chunk max_keywords False"


section \<open>Descriptions of the remote data\<close>



text \<open>
  Two readers get the same responses for a channel: every history request and every
  replies request for it has the same outcome with both.
\<close>

definition same_responses :: "SlackReader \<Rightarrow> SlackReader \<Rightarrow> string \<Rightarrow> bool" where
  "same_responses run1 run2 channel_id =
     ((\<forall>cursor. conversations_history (client run1) channel_id cursor =
                conversations_history (client run2) channel_id cursor) \<and>
      (\<forall>message_ts cursor. conversations_replies (client run1) channel_id message_ts cursor =
                conversations_replies (client run2) channel_id message_ts cursor))"


section \<open>Example data\<close>

text \<open>
  A workspace with six kinds of channel.  \<open>C\<close> has one page with the messages \<open>1.0\<close> and
  \<open>2.0\<close>; \<open>D\<close> is empty; \<open>P\<close> has two pages; \<open>F\<close> has a first page, and the request for
  its second page is rejected by the API; the connection fails for \<open>X\<close>; any other
  channel is unknown to the API.  The thread of a message \<open>1.0\<close> has the anchor and two
  replies, on two pages; any other message has no replies.
\<close>

definition first_page :: response where
  "first_page =
     \<lparr>messages = [\<lparr>msg_text = ''anchor'', ts = ''1.0''\<rparr>],
      has_more = True,
      response_metadata = [(''next_cursor'', ''c1'')]\<rparr>"

definition second_page :: response where
  "second_page =
     \<lparr>messages = [\<lparr>msg_text = ''solo'', ts = ''2.0''\<rparr>],
      has_more = False,
      response_metadata = []\<rparr>"

definition example_history :: "string \<Rightarrow> string option \<Rightarrow> error + response" where
  "example_history channel cursor =
     (if channel = ''C'' then
        Inr \<lparr>messages = [\<lparr>msg_text = ''anchor'', ts = ''1.0''\<rparr>,
                         \<lparr>msg_text = ''solo'', ts = ''2.0''\<rparr>],
             has_more = False, response_metadata = []\<rparr>
      else if channel = ''D'' then
        Inr \<lparr>messages = [], has_more = False, response_metadata = []\<rparr>
      else if channel = ''P'' then
        (if cursor = None then Inr first_page else Inr second_page)
      else if channel = ''F'' then
        (if cursor = None then Inr first_page else Inl (SlackApiError ''ratelimited''))
      else if channel = ''X'' then Inl (OSError ''connection reset'')
      else Inl (SlackApiError ''channel_not_found''))"

definition thread_page_one :: response where
  "thread_page_one =
     \<lparr>messages = [\<lparr>msg_text = ''anchor'', ts = ''1.0''\<rparr>, \<lparr>msg_text = ''r1'', ts = ''1.1''\<rparr>],
      has_more = True,
      response_metadata = [(''next_cursor'', ''r'')]\<rparr>"

definition thread_page_two :: response where
  "thread_page_two =
     \<lparr>messages = [\<lparr>msg_text = ''r2'', ts = ''1.2''\<rparr>],
      has_more = False,
      response_metadata = []\<rparr>"

definition solo_page :: "string \<Rightarrow> response" where
  "solo_page message_ts =
     \<lparr>messages = [\<lparr>msg_text = ''solo'', ts = message_ts\<rparr>],
      has_more = False,
      response_metadata = []\<rparr>"

definition example_replies :: "string \<Rightarrow> string \<Rightarrow> string option \<Rightarrow> error + response" where
  "example_replies channel message_ts cursor =
     (if message_ts = ''1.0''
      then (if cursor = None then Inr thread_page_one else Inr thread_page_two)
      else Inr (solo_page message_ts))"

definition example_reader :: SlackReader where
  "example_reader =
     \<lparr>client = \<lparr>api_test = Inr \<lparr>ok = True, error_field = []\<rparr>,
                conversations_history = example_history,
                conversations_replies = example_replies\<rparr>\<rparr>"

text \<open>A second workspace: the same in the channels \<open>C\<close> and \<open>D\<close>, out of reach elsewhere.\<close>

definition other_reader :: SlackReader where
  "other_reader =
     \<lparr>client = \<lparr>api_test = Inr \<lparr>ok = True, error_field = []\<rparr>,
                conversations_history = (\<lambda>channel cursor.
                  if channel = ''C'' \<or> channel = ''D'' then example_history channel cursor
                  else Inl (OSError ''offline'')),
                conversations_replies = (\<lambda>channel message_ts cursor.
                  if channel = ''C'' \<or> channel = ''D''
                  then example_replies channel message_ts cursor
                  else Inl (OSError ''offline''))\<rparr>\<rparr>"

text \<open>
  A file system with three directories: \<open>plain\<close> holds \<open>a.txt\<close> and \<open>b.txt\<close>; \<open>data\<close>
  holds the same two files after a directory \<open>.git\<close>; \<open>nested\<close> holds \<open>a.txt\<close> and a
  directory \<open>sub\<close>.
\<close>

definition example_fs :: filesystem where
  "example_fs =
     \<lparr>iterdir = (\<lambda>dir.
        if dir = ''plain'' then Inr [''plain/a.txt'', ''plain/b.txt'']
        else if dir = ''data'' then Inr [''data/.git'', ''data/a.txt'', ''data/b.txt'']
        else if dir = ''nested'' then Inr [''nested/a.txt'', ''nested/sub'']
        else Inl (OSError ''No such file or directory'')),
      is_file = (\<lambda>p. path_name p = ''a.txt'' \<or> path_name p = ''b.txt''),
      read_text = (\<lambda>p.
        if path_name p = ''a.txt'' then Inr ''foo''
        else if path_name p = ''b.txt'' then Inr ''bar''
        else Inl (OSError ''Is a directory''))\<rparr>"


section \<open>Auxiliary facts\<close>

subsection \<open>The thread loop\<close>


subsection \<open>The loop over the messages of a page\<close>

text \<open>What the loop appends, and whether it raises, does not depend on the list it starts with.\<close>

lemma read_channel_messages_append:
  "read_channel_messages self channel_id msgs acc =
     map_option (\<lambda>(e, threads). (e, acc @ threads))
       (read_channel_messages self channel_id msgs [])"
proof (induction msgs arbitrary: acc)
  case Nil
  then show ?case by simp
next
  case (Cons m msgs)
  show ?case
  proof (cases "read_message self channel_id (ts m)")
    case None
    then show ?thesis by simp
  next
    case (Some r)
    show ?thesis
    proof (cases r)
      case (Inl e)
      with Some show ?thesis by simp
    next
      case (Inr thread)
      have "read_channel_messages self channel_id msgs (acc @ [thread]) =
          map_option (\<lambda>(e, threads). (e, (acc @ [thread]) @ threads))
            (read_channel_messages self channel_id msgs [])"
        by (rule Cons.IH)
      moreover have "read_channel_messages self channel_id msgs [thread] =
          map_option (\<lambda>(e, threads). (e, [thread] @ threads))
            (read_channel_messages self channel_id msgs [])"
        using Cons.IH[of "[thread]"] by simp
      ultimately show ?thesis
        using Some Inr
        by (cases "read_channel_messages self channel_id msgs []") auto
    qed
  qed
qed



subsection \<open>The channel loop\<close>



text \<open>
  A channel of more than one page: the request without a cursor returns a page that
  says \<^verbatim>\<open>has_more\<close>, every thread of that page can be read, and the request with the
  cursor succeeds.  Then every round ends with the same cursor and a longer list, and
  the loop never returns.
\<close>

lemma read_channel_loop_forever:
  assumes first: "conversations_history (client self) channel_id None = Inr result"
    and more: "has_more result"
    and next_cursor: "map_of (response_metadata result) ''next_cursor'' = Some c"
    and second: "conversations_history (client self) channel_id (Some c) = Inr page"
    and threads: "read_channel_messages self channel_id (messages result) [] = Some (None, threads)"
    and cursor: "cursor = None \<or> cursor = Some c"
  shows "read_channel_loop self channel_id cursor acc = None"
proof (cases "read_channel_loop self channel_id cursor acc")
  case None
  then show ?thesis .
next
  case (Some y)
  have "\<not> (self = self \<and> channel_id = channel_id \<and> (cursor = None \<or> cursor = Some c))"
  proof (rule read_channel_loop.raw_induct
      [where P = "\<lambda>self' channel_id' cursor' acc' y'.
         \<not> (self' = self \<and> channel_id' = channel_id \<and> (cursor' = None \<or> cursor' = Some c))",
       OF _ Some], goal_cases)
    case (1 loop self' channel_id' cursor' acc' y')
    show ?case
    proof
      assume here: "self' = self \<and> channel_id' = channel_id \<and> (cursor' = None \<or> cursor' = Some c)"
      then obtain overwritten where
        a: "conversations_history (client self) channel_id cursor' = Inr overwritten"
        using first second by auto
      have m: "read_channel_messages self channel_id (messages result) acc' = Some (None, acc' @ threads)"
        using threads by (subst read_channel_messages_append) simp
      from 1(2) here a first more next_cursor m
      have "loop self channel_id (Some c) (acc' @ threads) = Some y'"
        by simp
      from 1(1)[OF this] show False by simp
    qed
  qed
  with cursor show ?thesis by simp
qed

text \<open>
  The same channel when the request with the cursor raises: the first round reads the
  first page, the second round's request stands before the \<^verbatim>\<open>try\<close>, and the exception
  leaves the function, whatever its class.
\<close>

lemma read_channel_second_page_error:
  assumes first: "conversations_history (client self) channel_id None = Inr result"
    and more: "has_more result"
    and next_cursor: "map_of (response_metadata result) ''next_cursor'' = Some c"
    and threads: "read_channel_messages self channel_id (messages result) [] = Some (None, threads)"
    and second: "conversations_history (client self) channel_id (Some c) = Inl e"
  shows "read_channel self channel_id = Some (Inl e)"
proof -
  have "read_channel_loop self channel_id (Some c) threads = Some (Inl e)"
    using second by (subst read_channel_loop.simps) simp
  with first more next_cursor threads show ?thesis
    unfolding read_channel_def by (subst read_channel_loop.simps) simp
qed

subsection \<open>The loop over the channels\<close>

lemma Document_eq_iff:
  "(d :: Document) = \<lparr>doc_text = body, extra_info = info\<rparr> \<longleftrightarrow>
     doc_text d = body \<and> extra_info d = info"
  by (cases d) auto

lemma load_channels_documents:
  "load_channels self channel_ids results = Some (Inr out) \<longleftrightarrow>
     (\<exists>documents.
        list_all2 (\<lambda>channel_id d.
            read_channel self channel_id = Some (Inr (doc_text d)) \<and>
            extra_info d = Some [(''channel'', channel_id)])
          channel_ids documents \<and>
        out = results @ documents)"
proof (induction channel_ids arbitrary: results)
  case Nil
  then show ?case by auto
next
  case (Cons channel_id rest)
  show ?case
  proof (cases "read_channel self channel_id")
    case None
    then show ?thesis by (simp add: list_all2_Cons1)
  next
    case (Some r)
    show ?thesis
    proof (cases r)
      case (Inl e)
      with Some show ?thesis by (simp add: list_all2_Cons1)
    next
      case (Inr channel_content)
      let ?d = "\<lparr>doc_text = channel_content, extra_info = Some [(''channel'', channel_id)]\<rparr>"
      let ?Q = "\<lambda>channel_id d.
          read_channel self channel_id = Some (Inr (doc_text d)) \<and>
          extra_info d = Some [(''channel'', channel_id)]"
      have step: "load_channels self (channel_id # rest) results =
          load_channels self rest (results @ [?d])"
        using Some Inr by simp
      have d: "?Q channel_id d \<longleftrightarrow> d = ?d" for d
        using Some Inr by (auto simp: Document_eq_iff)
      have "(\<exists>documents. list_all2 ?Q rest documents \<and> out = (results @ [?d]) @ documents) \<longleftrightarrow>
          (\<exists>documents. list_all2 ?Q (channel_id # rest) documents \<and> out = results @ documents)"
        unfolding list_all2_Cons1 d by auto
      then show ?thesis
        unfolding step Cons.IH .
    qed
  qed
qed

lemma load_channels_raises:
  assumes "list_all2 (\<lambda>channel_id body. read_channel self channel_id = Some (Inr body)) before bodies"
    and "read_channel self channel_id = Some (Inl e)"
  shows "load_channels self (before @ channel_id # after) results = Some (Inl e)"
  using assms
  by (induction before bodies arbitrary: results rule: list_all2_induct) simp_all

subsection \<open>Two readers with the same responses\<close>

lemma same_responses_sym: "same_responses run1 run2 channel_id \<Longrightarrow> same_responses run2 run1 channel_id"
  by (simp add: same_responses_def)

lemma read_message_loop_same_le:
  assumes "read_message_loop run1 channel_id message_ts cursor acc = Some y"
    and "same_responses run1 run2 channel_id"
  shows "read_message_loop run2 channel_id message_ts cursor acc = Some y"
proof -
  have "same_responses run1 run2 channel_id \<longrightarrow>
      read_message_loop run2 channel_id message_ts cursor acc = Some y"
  proof (rule read_message_loop.raw_induct
      [where P = "\<lambda>self channel_id message_ts cursor acc y.
         same_responses self run2 channel_id \<longrightarrow>
         read_message_loop run2 channel_id message_ts cursor acc = Some y",
       OF _ assms(1)], goal_cases)
    case (1 loop self channel_id message_ts cursor acc y)
    show ?case
    proof
      assume same: "same_responses self run2 channel_id"
      then have replies: "conversations_replies (client run2) channel_id message_ts cursor =
          conversations_replies (client self) channel_id message_ts cursor"
        by (simp add: same_responses_def)
      show "read_message_loop run2 channel_id message_ts cursor acc = Some y"
      proof (cases "conversations_replies (client self) channel_id message_ts cursor")
        case (Inl e)
        with 1(2) replies show ?thesis
          by (subst read_message_loop.simps) simp
      next
        case (Inr result)
        show ?thesis
        proof (cases "has_more result")
          case False
          with 1(2) replies Inr show ?thesis
            by (subst read_message_loop.simps) simp
        next
          case True
          show ?thesis
          proof (cases "map_of (response_metadata result) ''next_cursor''")
            case None
            with 1(2) replies Inr True show ?thesis
              by (subst read_message_loop.simps) simp
          next
            case (Some c)
            with 1(2) Inr True have
              "loop self channel_id message_ts (Some c) (acc @ map msg_text (messages result)) = Some y"
              by simp
            from 1(1)[OF this] same have
              "read_message_loop run2 channel_id message_ts (Some c)
                 (acc @ map msg_text (messages result)) = Some y"
              by simp
            with replies Inr True Some show ?thesis
              by (subst read_message_loop.simps) simp
          qed
        qed
      qed
    qed
  qed
  with assms(2) show ?thesis by simp
qed

lemma read_message_same:
  assumes "same_responses run1 run2 channel_id"
  shows "read_message run1 channel_id message_ts = read_message run2 channel_id message_ts"
proof (cases "read_message run1 channel_id message_ts")
  case None
  show ?thesis
  proof (cases "read_message run2 channel_id message_ts")
    case None
    with \<open>read_message run1 channel_id message_ts = None\<close> show ?thesis by simp
  next
    case (Some y)
    then have "read_message run1 channel_id message_ts = Some y"
      unfolding read_message_def
      by (rule read_message_loop_same_le) (rule same_responses_sym[OF assms])
    with None show ?thesis by simp
  qed
next
  case (Some y)
  then have "read_message run2 channel_id message_ts = Some y"
    unfolding read_message_def
    by (rule read_message_loop_same_le) (rule assms)
  with Some show ?thesis by simp
qed

lemma read_channel_messages_same:
  assumes "same_responses run1 run2 channel_id"
  shows "read_channel_messages run1 channel_id msgs acc =
    read_channel_messages run2 channel_id msgs acc"
  by (induction msgs arbitrary: acc)
    (simp_all add: read_message_same[OF assms] split: option.splits sum.splits)

lemma read_channel_loop_same_le:
  assumes "read_channel_loop run1 channel_id cursor acc = Some y"
    and "same_responses run1 run2 channel_id"
  shows "read_channel_loop run2 channel_id cursor acc = Some y"
proof -
  have "same_responses run1 run2 channel_id \<longrightarrow>
      read_channel_loop run2 channel_id cursor acc = Some y"
  proof (rule read_channel_loop.raw_induct
      [where P = "\<lambda>self channel_id cursor acc y.
         same_responses self run2 channel_id \<longrightarrow>
         read_channel_loop run2 channel_id cursor acc = Some y",
       OF _ assms(1)], goal_cases)
    case (1 loop self channel_id cursor acc y)
    show ?case
    proof
      assume same: "same_responses self run2 channel_id"
      then have history: "conversations_history (client run2) channel_id c =
          conversations_history (client self) channel_id c" for c
        by (simp add: same_responses_def)
      have msgs: "read_channel_messages run2 channel_id ms a =
          read_channel_messages self channel_id ms a" for ms a
        by (rule read_channel_messages_same[OF same, symmetric])
      have again: "read_channel_loop run2 channel_id c a = Some y"
        if "loop self channel_id c a = Some y" for c a
        using 1(1)[OF that] same by simp
      from 1(2) show "read_channel_loop run2 channel_id cursor acc = Some y"
        by (subst read_channel_loop.simps)
          (auto simp: history msgs again split: sum.splits option.splits if_splits prod.splits)
    qed
  qed
  with assms(2) show ?thesis by simp
qed

lemma read_channel_same:
  assumes "same_responses run1 run2 channel_id"
  shows "read_channel run1 channel_id = read_channel run2 channel_id"
proof (cases "read_channel run1 channel_id")
  case None
  show ?thesis
  proof (cases "read_channel run2 channel_id")
    case None
    with \<open>read_channel run1 channel_id = None\<close> show ?thesis by simp
  next
    case (Some y)
    then have "read_channel run1 channel_id = Some y"
      unfolding read_channel_def
      by (rule read_channel_loop_same_le) (rule same_responses_sym[OF assms])
    with None show ?thesis by simp
  qed
next
  case (Some y)
  then have "read_channel run2 channel_id = Some y"
    unfolding read_channel_def
    by (rule read_channel_loop_same_le) (rule assms)
  with Some show ?thesis by simp
qed

lemma load_channels_same:
  assumes "\<forall>channel_id\<in>set channel_ids. same_responses run1 run2 channel_id"
  shows "load_channels run1 channel_ids results = load_channels run2 channel_ids results"
  using assms
proof (induction channel_ids arbitrary: results)
  case Nil
  then show ?case by simp
next
  case (Cons channel_id rest)
  then have "read_channel run1 channel_id = read_channel run2 channel_id"
    by (simp add: read_channel_same)
  with Cons show ?case
    by (simp split: option.splits sum.splits)
qed

subsection \<open>The directory reader\<close>

lemma check_files_find:
  "check_files fs files =
     map_option (\<lambda>f. ValueError (''Expected '' @ f @ '' to be a file.''))
       (find (\<lambda>f. \<not> is_file fs f) files)"
  by (induction files) simp_all

subsection \<open>The example data\<close>

lemma example_requests:
  "conversations_history (client example_reader) = example_history"
  "conversations_replies (client example_reader) = example_replies"
  by (simp_all add: example_reader_def)

lemma other_requests:
  "conversations_history (client other_reader) channel cursor =
     (if channel = ''C'' \<or> channel = ''D'' then example_history channel cursor
      else Inl (OSError ''offline''))"
  "conversations_replies (client other_reader) channel message_ts cursor =
     (if channel = ''C'' \<or> channel = ''D'' then example_replies channel message_ts cursor
      else Inl (OSError ''offline''))"
  by (simp_all add: other_reader_def)

lemma example_thread_anchor:
  "read_message example_reader channel ''1.0'' =
     Some (Inr (''anchor'' @ [CHR 0x0A, CHR 0x0A] @ ''r1'' @ [CHR 0x0A, CHR 0x0A] @ ''r2''))"
  by (simp add: read_message_def read_message_loop.simps example_requests
      example_replies_def thread_page_one_def thread_page_two_def)

lemma example_thread_solo:
  "message_ts \<noteq> ''1.0'' \<Longrightarrow> read_message example_reader channel message_ts = Some (Inr ''solo'')"
  by (simp add: read_message_def read_message_loop.simps example_requests
      example_replies_def solo_page_def)

lemma example_channel_C:
  "read_channel example_reader ''C'' =
     Some (Inr (''anchor'' @ [CHR 0x0A, CHR 0x0A] @ ''r1'' @ [CHR 0x0A, CHR 0x0A] @ ''r2'' @
                [CHR 0x0A, CHR 0x0A] @ ''solo''))"
  by (simp add: read_channel_def read_channel_loop.simps example_requests example_history_def
      example_thread_anchor example_thread_solo)

lemma example_channel_D:
  "read_channel example_reader ''D'' = Some (Inr [])"
  by (simp add: read_channel_def read_channel_loop.simps example_requests example_history_def)

lemma example_path_names:
  "path_name ''plain/a.txt'' = ''a.txt''" "path_name ''plain/b.txt'' = ''b.txt''"
  "path_name ''data/a.txt'' = ''a.txt''" "path_name ''data/b.txt'' = ''b.txt''"
  "path_name ''data/.git'' = ''.git''"
  "path_name ''nested/a.txt'' = ''a.txt''" "path_name ''nested/sub'' = ''sub''"
  by (simp_all add: path_name_def)


section \<open>The claims\<close>

subsection \<open>C1: a failing second page\<close>

text \<open>
  Claim C1 says that when the first history page of a channel is fetched and the
  request for the second page fails, \<^verbatim>\<open>load_data\<close> returns a Document with the first
  page's text and raises nothing.  Channel \<open>F\<close> of the example workspace is such a
  channel: its first page holds the message \<open>1.0\<close> and the cursor \<open>c1\<close>, and the request
  with that cursor raises \<open>SlackApiError\<close>.  The code returns no Document there: the
  request with the cursor stands before the \<^verbatim>\<open>try\<close> of \<^verbatim>\<open>_read_channel\<close>, so the
  exception reaches the caller of \<^verbatim>\<open>load_data\<close>, and the text read from the first
  page is lost.
\<close>

theorem second_page_failure_reaches_caller:
  "SlackReader_load_data example_reader (Some [''F'']) =
     Some (Inl (SlackApiError ''ratelimited''))"
  by (simp add: SlackReader_load_data_def read_channel_def read_channel_loop.simps
      example_thread_anchor example_requests example_history_def first_page_def)

subsection \<open>C2: a channel of more than one page\<close>

text \<open>
  Claim C2 says that the pages after the first are requested with the cursor of the
  page before, that the loop ends when a page says there are no more, and that the
  messages of all pages are gathered in order.  Channel \<open>P\<close> of the example workspace
  has two pages.  The code requests the second page with the cursor and drops the
  response; the response it reads comes from the request without a cursor, which is
  the first page in every round.  That page says \<^verbatim>\<open>has_more\<close>, so \<^verbatim>\<open>_read_channel\<close>
  never returns.
\<close>

theorem paged_channel_never_returns:
  "read_channel example_reader ''P'' = None"
  unfolding read_channel_def
proof (rule read_channel_loop_forever)
  show "conversations_history (client example_reader) ''P'' None = Inr first_page"
    by (simp add: example_requests example_history_def)
  show "has_more first_page"
    by (simp add: first_page_def)
  show "map_of (response_metadata first_page) ''next_cursor'' = Some ''c1''"
    by (simp add: first_page_def)
  show "conversations_history (client example_reader) ''P'' (Some ''c1'') = Inr second_page"
    by (simp add: example_requests example_history_def)
  show "read_channel_messages example_reader ''P'' (messages first_page) [] =
      Some (None, [''anchor'' @ [CHR 0x0A, CHR 0x0A] @ ''r1'' @ [CHR 0x0A, CHR 0x0A] @ ''r2''])"
    by (simp add: first_page_def example_thread_anchor)
  show "None = None \<or> None = Some ''c1''"
    by simp
qed

subsection \<open>C3: one Document per channel\<close>

text \<open>
  Claim C3, as amended: \<^verbatim>\<open>load_data\<close> returns a list of Documents exactly when the read
  of every channel returns a body, and the list then holds one Document per channel
  id, in the order of the ids, whose text is the body of its channel and whose
  \<^verbatim>\<open>extra_info\<close> is exactly the entry from \<open>channel\<close> to the id.  When the reads of
  the channels before one return bodies and the read of that one raises, \<^verbatim>\<open>load_data\<close>
  raises the same exception.
\<close>

theorem load_data_documents:
  "(SlackReader_load_data self (Some channel_ids) = Some (Inr documents) \<longleftrightarrow>
      list_all2 (\<lambda>channel_id d.
          read_channel self channel_id = Some (Inr (doc_text d)) \<and>
          extra_info d = Some [(''channel'', channel_id)])
        channel_ids documents) \<and>
   (list_all2 (\<lambda>channel_id body. read_channel self channel_id = Some (Inr body)) before bodies \<and>
    read_channel self failing = Some (Inl e) \<longrightarrow>
      SlackReader_load_data self (Some (before @ failing # after)) = Some (Inl e))"
  by (auto simp: SlackReader_load_data_def load_channels_documents intro: load_channels_raises)

text \<open>
  The channels \<open>C\<close> and \<open>D\<close> of the example workspace, read in this order, and the
  same with the channel \<open>X\<close>, for which the connection fails, between them.
\<close>

theorem load_data_documents_witness:
  "SlackReader_load_data example_reader (Some [''C'', ''D'']) =
     Some (Inr [\<lparr>doc_text = ''anchor'' @ [CHR 0x0A, CHR 0x0A] @ ''r1'' @ [CHR 0x0A, CHR 0x0A] @
                              ''r2'' @ [CHR 0x0A, CHR 0x0A] @ ''solo'',
                  extra_info = Some [(''channel'', ''C'')]\<rparr>,
                \<lparr>doc_text = [], extra_info = Some [(''channel'', ''D'')]\<rparr>]) \<and>
   read_channel example_reader ''X'' = Some (Inl (OSError ''connection reset'')) \<and>
   SlackReader_load_data example_reader (Some [''C'', ''X'', ''D'']) =
     Some (Inl (OSError ''connection reset''))"
proof -
  let ?body = "''anchor'' @ [CHR 0x0A, CHR 0x0A] @ ''r1'' @ [CHR 0x0A, CHR 0x0A] @
                              ''r2'' @ [CHR 0x0A, CHR 0x0A] @ ''solo''"
  have x: "read_channel example_reader ''X'' = Some (Inl (OSError ''connection reset''))"
    by (simp add: read_channel_def read_channel_loop.simps example_requests example_history_def)
  have "list_all2 (\<lambda>channel_id body. read_channel example_reader channel_id = Some (Inr body))
      [''C''] [?body]"
    by (simp add: example_channel_C)
  with x load_data_documents[of example_reader _ _ "[''C'']" "[?body]" "''X''"
      "OSError ''connection reset''" "[''D'']"]
  have "SlackReader_load_data example_reader (Some [''C'', ''X'', ''D'']) =
     Some (Inl (OSError ''connection reset''))"
    by simp
  with x show ?thesis
    by (simp add: load_data_documents example_channel_C example_channel_D)
qed

text \<open>
  Claim C3 as stated fails where a read raises: the connection fails for channel \<open>X\<close>,
  the \<^verbatim>\<open>except\<close> clause names \<open>SlackApiError\<close> only, and \<^verbatim>\<open>load_data\<close> for the one id
  \<open>X\<close> raises \<open>OSError\<close> and returns no Document.
\<close>

theorem load_data_raises_counterexample:
  "SlackReader_load_data example_reader (Some [''X'']) =
     Some (Inl (OSError ''connection reset''))"
  by (simp add: SlackReader_load_data_def read_channel_def read_channel_loop.simps
      example_requests example_history_def)

subsection \<open>C4: the text of a thread and its place in the body\<close>



subsection \<open>C5: absent or empty channel ids\<close>

text \<open>
  Claim C5, as amended: with any reader, whatever its client would answer,
  \<^verbatim>\<open>load_data\<close> raises \<open>ValueError\<close> when \<^verbatim>\<open>channel_ids\<close> is absent, and returns the
  empty list of Documents, raising nothing, when \<^verbatim>\<open>channel_ids\<close> is empty.
\<close>

theorem load_data_absent_or_empty:
  "SlackReader_load_data self None =
     Some (Inl (ValueError ''Must specify a \"channel_id\" in `load_kwargs`.'')) \<and>
   SlackReader_load_data self (Some []) = Some (Inr [])"
  by (simp add: SlackReader_load_data_def)

text \<open>Claim C5 as stated fails for the empty list: the code tests for \<^verbatim>\<open>None\<close> only.\<close>

theorem load_data_empty_counterexample:
  "SlackReader_load_data example_reader (Some []) = Some (Inr [])"
  by (simp add: SlackReader_load_data_def)

subsection \<open>C6: no token\<close>

text \<open>
  Claim C6 says that constructing the reader with no token and without the variable
  \<^verbatim>\<open>SLACK_BOT_TOKEN\<close> raises the \<open>ValueError\<close> that asks for a token.  The code reads
  the variable with \<^verbatim>\<open>os.environ["SLACK_BOT_TOKEN"]\<close>, which raises \<open>KeyError\<close> when the
  variable is not set, so the test that would raise the \<open>ValueError\<close> is never reached.
\<close>

theorem init_without_token_raises_KeyError:
  "SlackReader_init (Some WebClient) (environ(''SLACK_BOT_TOKEN'' := None)) None =
     Inl (KeyError ''SLACK_BOT_TOKEN'')"
  by (simp add: SlackReader_init_def environ_getitem_def)

subsection \<open>C7: the directory loader\<close>

text \<open>
  Claim C7.  For a directory whose entries are the files \<open>a.txt\<close> with the content
  \<open>foo\<close> and \<open>b.txt\<close> with the content \<open>bar\<close>, in this order, the reader is
  constructed, \<^verbatim>\<open>load_data\<close> with \<^verbatim>\<open>concatenate\<close> true (given or left out) returns one
  Document whose text is \<open>foo\<close>, a line break and \<open>bar\<close>, and with \<^verbatim>\<open>concatenate\<close>
  false it returns the two Documents \<open>foo\<close> and \<open>bar\<close>.
\<close>

theorem directory_loader_foo_bar:
  assumes "iterdir fs dir = Inr [a, b]"
    and "path_name a = ''a.txt''" and "path_name b = ''b.txt''"
    and "is_file fs a" and "is_file fs b"
    and "read_text fs a = Inr ''foo''" and "read_text fs b = Inr ''bar''"
  shows "\<exists>self. SimpleDirectoryReader_init fs dir exclude_hidden = Inr self \<and>
     SimpleDirectoryReader_load_data fs self (Some True) =
       Inr [\<lparr>doc_text = ''foo'' @ [CHR 0x0A] @ ''bar'', extra_info = None\<rparr>] \<and>
     SimpleDirectoryReader_load_data fs self None =
       Inr [\<lparr>doc_text = ''foo'' @ [CHR 0x0A] @ ''bar'', extra_info = None\<rparr>] \<and>
     SimpleDirectoryReader_load_data fs self (Some False) =
       Inr [\<lparr>doc_text = ''foo'', extra_info = None\<rparr>, \<lparr>doc_text = ''bar'', extra_info = None\<rparr>]"
proof -
  have "SimpleDirectoryReader_init fs dir exclude_hidden =
      Inr \<lparr>input_dir = dir, input_files = [a, b]\<rparr>"
    using assms by (simp add: SimpleDirectoryReader_init_def startswith_def)
  moreover have "read_files fs [a, b] [] = Inr [''foo'', ''bar'']"
    using assms by simp
  ultimately show ?thesis
    by (simp add: SimpleDirectoryReader_load_data_def)
qed

text \<open>The directory \<open>plain\<close> of the example file system.\<close>

theorem directory_loader_foo_bar_witness:
  "\<exists>self. SimpleDirectoryReader_init example_fs ''plain'' True = Inr self \<and>
     SimpleDirectoryReader_load_data example_fs self (Some True) =
       Inr [\<lparr>doc_text = ''foo'' @ [CHR 0x0A] @ ''bar'', extra_info = None\<rparr>] \<and>
     SimpleDirectoryReader_load_data example_fs self None =
       Inr [\<lparr>doc_text = ''foo'' @ [CHR 0x0A] @ ''bar'', extra_info = None\<rparr>] \<and>
     SimpleDirectoryReader_load_data example_fs self (Some False) =
       Inr [\<lparr>doc_text = ''foo'', extra_info = None\<rparr>, \<lparr>doc_text = ''bar'', extra_info = None\<rparr>]"
  by (rule directory_loader_foo_bar[of example_fs "''plain''" "''plain/a.txt''" "''plain/b.txt''"])
    (simp_all add: example_fs_def example_path_names)

subsection \<open>C8: the same responses give the same Documents\<close>

text \<open>
  Claim C8.  When two runs get the same response to every request for the channels
  asked for, \<^verbatim>\<open>load_data\<close> has the same outcome in both: the same Documents, with the
  same texts and the same \<^verbatim>\<open>extra_info\<close>, or the same exception, or no return in
  either.
\<close>

theorem load_data_deterministic:
  assumes "\<forall>channel_id\<in>set channel_ids. same_responses run1 run2 channel_id"
  shows "SlackReader_load_data run1 (Some channel_ids) =
         SlackReader_load_data run2 (Some channel_ids)"
  using assms by (simp add: SlackReader_load_data_def load_channels_same)

text \<open>
  The two example workspaces answer alike for the channels \<open>C\<close> and \<open>D\<close>, and
  differently elsewhere.
\<close>

theorem load_data_deterministic_witness:
  "same_responses example_reader other_reader ''C'' \<and>
   same_responses example_reader other_reader ''D'' \<and>
   conversations_history (client example_reader) ''P'' None \<noteq>
     conversations_history (client other_reader) ''P'' None \<and>
   SlackReader_load_data example_reader (Some [''C'', ''D'']) =
     SlackReader_load_data other_reader (Some [''C'', ''D''])"
proof -
  have same: "same_responses example_reader other_reader ''C''"
    "same_responses example_reader other_reader ''D''"
    by (simp_all add: same_responses_def example_requests other_requests)
  then have "\<forall>channel_id\<in>set [''C'', ''D'']. same_responses example_reader other_reader channel_id"
    by simp
  from load_data_deterministic[OF this] same show ?thesis
    by (simp add: example_requests other_requests example_history_def)
qed

subsection \<open>C9: entries that are not files\<close>

text \<open>
  Claim C9.  The constructor, not \<^verbatim>\<open>load_data\<close>, rejects an entry that is not a
  regular file: it raises the \<open>ValueError\<close> naming the first such entry among those
  that remain after the dot-prefixed entries are left out (when that is asked for),
  and constructs the reader over the remaining entries when there is none.  So when
  hidden entries are excluded and every entry is a file or dot-prefixed, the reader
  is constructed.
\<close>

theorem init_rejects_non_files:
  assumes "iterdir fs dir = Inr listed"
  shows "SimpleDirectoryReader_init fs dir exclude_hidden =
      (let remaining = filter (\<lambda>f. \<not> (exclude_hidden \<and> startswith (path_name f) ''.'')) listed in
       case find (\<lambda>f. \<not> is_file fs f) remaining of
         Some f \<Rightarrow> Inl (ValueError (''Expected '' @ f @ '' to be a file.''))
       | None \<Rightarrow> Inr \<lparr>input_dir = dir, input_files = remaining\<rparr>) \<and>
    (exclude_hidden \<and> (\<forall>f\<in>set listed. is_file fs f \<or> startswith (path_name f) ''.'') \<longrightarrow>
       SimpleDirectoryReader_init fs dir exclude_hidden =
         Inr \<lparr>input_dir = dir,
              input_files = filter (\<lambda>f. \<not> startswith (path_name f) ''.'') listed\<rparr>)"
proof (intro conjI impI)
  show "SimpleDirectoryReader_init fs dir exclude_hidden =
      (let remaining = filter (\<lambda>f. \<not> (exclude_hidden \<and> startswith (path_name f) ''.'')) listed in
       case find (\<lambda>f. \<not> is_file fs f) remaining of
         Some f \<Rightarrow> Inl (ValueError (''Expected '' @ f @ '' to be a file.''))
       | None \<Rightarrow> Inr \<lparr>input_dir = dir, input_files = remaining\<rparr>)"
    using assms
    by (cases exclude_hidden)
      (simp_all add: SimpleDirectoryReader_init_def check_files_find Let_def split: option.splits)
next
  assume hidden: "exclude_hidden \<and> (\<forall>f\<in>set listed. is_file fs f \<or> startswith (path_name f) ''.'')"
  then have "find (\<lambda>f. \<not> is_file fs f) (filter (\<lambda>f. \<not> startswith (path_name f) ''.'') listed) = None"
    by (auto simp: find_None_iff)
  with assms hidden show "SimpleDirectoryReader_init fs dir exclude_hidden =
      Inr \<lparr>input_dir = dir, input_files = filter (\<lambda>f. \<not> startswith (path_name f) ''.'') listed\<rparr>"
    by (simp add: SimpleDirectoryReader_init_def check_files_find)
qed

text \<open>
  The directory \<open>data\<close> of the example file system holds a directory \<open>.git\<close>: the
  reader is constructed when hidden entries are excluded and rejected otherwise.  The
  directory \<open>sub\<close> of \<open>nested\<close> is rejected either way.
\<close>

theorem init_rejects_non_files_witness:
  "SimpleDirectoryReader_init example_fs ''data'' True =
     Inr \<lparr>input_dir = ''data'', input_files = [''data/a.txt'', ''data/b.txt'']\<rparr> \<and>
   SimpleDirectoryReader_init example_fs ''data'' False =
     Inl (ValueError ''Expected data/.git to be a file.'') \<and>
   SimpleDirectoryReader_init example_fs ''nested'' True =
     Inl (ValueError ''Expected nested/sub to be a file.'')"
proof -
  have data: "iterdir example_fs ''data'' = Inr [''data/.git'', ''data/a.txt'', ''data/b.txt'']"
    and nested: "iterdir example_fs ''nested'' = Inr [''nested/a.txt'', ''nested/sub'']"
    by (simp_all add: example_fs_def)
  have files: "\<not> is_file example_fs ''data/.git''" "is_file example_fs ''data/a.txt''"
    "is_file example_fs ''data/b.txt''" "is_file example_fs ''nested/a.txt''"
    "\<not> is_file example_fs ''nested/sub''"
    by (simp_all add: example_fs_def example_path_names)
  from init_rejects_non_files[OF data, of True] files
  have "SimpleDirectoryReader_init example_fs ''data'' True =
     Inr \<lparr>input_dir = ''data'', input_files = [''data/a.txt'', ''data/b.txt'']\<rparr>"
    by (simp add: example_path_names startswith_def)
  moreover from init_rejects_non_files[OF data, of False] files
  have "SimpleDirectoryReader_init example_fs ''data'' False =
     Inl (ValueError ''Expected data/.git to be a file.'')"
    by simp
  moreover from init_rejects_non_files[OF nested, of True] files
  have "SimpleDirectoryReader_init example_fs ''nested'' True =
     Inl (ValueError ''Expected nested/sub to be a file.'')"
    by (simp add: example_path_names startswith_def)
  ultimately show ?thesis by simp
qed

subsection \<open>C10: the mock helpers\<close>

text \<open>
  Claim C10.  \<^verbatim>\<open>mock_extract_keywords\<close> returns what \<^verbatim>\<open>simple_extract_keywords\<close> returns
  with \<^verbatim>\<open>filter_stopwords=False\<close>, whatever \<^verbatim>\<open>filter_stopwords\<close> it is given, and
  \<^verbatim>\<open>mock_extract_keywords_response\<close> returns the same keywords joined by commas.
\<close>

theorem mock_ignores_filter_stopwords:
  "mock_extract_keywords simple_extract_keywords text_chunk max_keywords filter_stopwords =
     simple_extract_keywords text_chunk max_keywords False \<and>
   mock_extract_keywords_response simple_extract_keywords text_chunk max_keywords filter_stopwords =
     join '','' (mock_extract_keywords simple_extract_keywords text_chunk max_keywords
       filter_stopwords')"
  by (simp add: mock_extract_keywords_def mock_extract_keywords_response_def)

end
